theory Spec2Isabelle
  imports Complex_Main
begin

section \<open>Common vocabulary\<close>

text \<open>
  The client layer of the AMQP library (\<^verbatim>\<open>uamqp/authentication.py\<close>,
  \<^verbatim>\<open>uamqp/client.py\<close>, \<^verbatim>\<open>uamqp/mgmt_operation.py\<close> and their
  \<^verbatim>\<open>async\<close> counterparts) is embedded as state-passing functions.  A Python
  method that mutates \<^verbatim>\<open>self\<close> takes the object as a record and returns the
  updated record next to its outcome; an exception is the outcome \<open>Raised\<close>.

  The extension module \<^verbatim>\<open>c_uamqp\<close> is not part of the sources.  What it reports
  (the polled CBS status, the tick counter, the callbacks delivered during one
  \<^verbatim>\<open>connection.work()\<close>) is an input of the model, given per call as an
  environment record; a call into it is recorded in a log of calls and returns.

  A loop that ticks the connection until something arrives may run forever.  Such a
  loop is run against the list of the environments of its successive ticks, and its
  result is \<open>None\<close> when the list is used up before the loop has ended.
\<close>

datatype error =
    TokenAuthFailure int string
  | AuthenticationException
  | TokenExpired
  | TimeoutError
  | ValueError
  | KeyError
  | AttributeError
  | AMQPConnectionError
  | MessageSendFailed

datatype 'a outcome = Returned 'a | Raised error

text \<open>Python truthiness of an optional string: \<^verbatim>\<open>None\<close> and \<^verbatim>\<open>''\<close> are false.\<close>

definition falsy :: "string option \<Rightarrow> bool" where
  "falsy s = (case s of None \<Rightarrow> True | Some v \<Rightarrow> v = [])"

text \<open>Python's \<^verbatim>\<open>a or b\<close> on optional strings.\<close>

definition py_or :: "string option \<Rightarrow> string option \<Rightarrow> string option" where
  "py_or a b = (if falsy a then b else a)"

text \<open>Truthiness of an optional number: \<^verbatim>\<open>None\<close> and \<^verbatim>\<open>0\<close> are false.\<close>

definition falsy_int :: "int option \<Rightarrow> bool" where
  "falsy_int v = (case v of None \<Rightarrow> True | Some n \<Rightarrow> n = 0)"

section \<open>CBS token authentication (\<^verbatim>\<open>authentication.py\<close>)\<close>

text \<open>
  Modelled from the spec: the enumeration \<^verbatim>\<open>constants.CBSAuthStatus\<close> is not in
  the sources; the spec lists its eight values (section 3, CbsAuthenticator state).
\<close>

datatype CBSAuthStatus =
  Ok | Idle | InProgress | Timeout | RefreshRequired | Expired | Error | Failure

text \<open>\<^verbatim>\<open>TokenRetryPolicy.__init__\<close>: \<^verbatim>\<open>backoff\<close> is given in milliseconds and
  kept in seconds.\<close>

record TokenRetryPolicy =
  retries :: int
  backoff :: rat

definition TokenRetryPolicy_init :: "int \<Rightarrow> int \<Rightarrow> TokenRetryPolicy" where
  "TokenRetryPolicy_init n ms = \<lparr> retries = n, backoff = of_int ms / 1000 \<rparr>"

text \<open>Calls made on the \<^verbatim>\<open>CBSTokenAuth\<close> object of the extension module, and the
  \<^verbatim>\<open>time.sleep\<close> between retries.\<close>

datatype cbs_call = Slept rat | CBS_authenticate | CBS_refresh string int

text \<open>
  The fields of \<^verbatim>\<open>SASTokenAuth\<close> that \<^verbatim>\<open>handle_token\<close> and
  \<^verbatim>\<open>update_token\<close> read or write.  \<^verbatim>\<open>expires_in\<close> is the
  \<^verbatim>\<open>timedelta\<close> in seconds; times are whole seconds.
\<close>

record SASTokenAuth =
  retry_policy :: TokenRetryPolicy
  username :: "string option"
  password :: "string option"
  token :: string
  expires_at :: int
  expires_in :: int
  retries :: int
  cbs_calls :: "cbs_call list"

text \<open>\<^verbatim>\<open>timedelta.seconds\<close> is the seconds component of the normalised value, not
  the total.\<close>

definition timedelta_seconds :: "int \<Rightarrow> int" where
  "timedelta_seconds d = d mod 86400"

text \<open>
  \<^verbatim>\<open>SASTokenAuth.__init__\<close>.  The arguments are the retry policy, the user name
  and password parsed from the URI, the explicit user name and password, the token,
  \<^verbatim>\<open>expires_in\<close>, \<^verbatim>\<open>expires_at\<close> and the reading of \<^verbatim>\<open>time.time()\<close>.
\<close>

definition SASTokenAuth_init ::
  "TokenRetryPolicy \<Rightarrow> string option \<Rightarrow> string option \<Rightarrow> string option \<Rightarrow> string option
    \<Rightarrow> string \<Rightarrow> int option \<Rightarrow> int option \<Rightarrow> int \<Rightarrow> error + SASTokenAuth" where
  "SASTokenAuth_init policy uri_username uri_password user pass tok exp_in exp_at time_time =
     (let a0 = \<lparr> retry_policy = policy,
                 username = py_or user (if falsy uri_username then None else uri_username),
                 password = py_or pass (if falsy uri_password then None else uri_password),
                 token = tok, expires_at = 0, expires_in = 0, retries = 0, cbs_calls = [] \<rparr>
      in if falsy_int exp_at \<and> falsy_int exp_in then Inl ValueError
         else if falsy_int exp_at then
           Inr (a0\<lparr> expires_in := the exp_in,
                    expires_at := time_time + timedelta_seconds (the exp_in) \<rparr>)
         else if the exp_at - time_time < 1 then Inl ValueError
         else Inr (a0\<lparr> expires_at := the exp_at, expires_in := the exp_at - time_time \<rparr>))"

text \<open>What one call of \<^verbatim>\<open>handle_token\<close> observes: the status polled from the
  authenticator, its failure information, the wall clock, and the token that
  \<^verbatim>\<open>utils.create_sas_token\<close> (not in the sources) produces.\<close>

record cbs_env =
  status :: CBSAuthStatus
  failure_info :: "int \<times> string"
  time_time :: int
  created_token :: string

text \<open>\<^verbatim>\<open>SASTokenAuth.update_token\<close>.\<close>

definition update_token ::
  "'e cbs_env_scheme \<Rightarrow> SASTokenAuth \<Rightarrow> unit outcome \<times> SASTokenAuth" where
  "update_token e a =
     (if falsy (username a) \<or> falsy (password a) then (Raised TokenExpired, a)
      else (Returned (),
            a\<lparr> expires_at := time_time e + timedelta_seconds (expires_in a),
               token := created_token e \<rparr>))"

text \<open>
  \<^verbatim>\<open>CBSAuthMixin.handle_token\<close>.  The result is the pair
  \<^verbatim>\<open>(timeout, in_progress)\<close>.  The branch for \<open>Failure\<close> builds an exception
  object and does not raise it, so control falls through to the final
  \<^verbatim>\<open>return timeout, in_progress\<close>.  The lock is taken and released around the
  body; the calls on the authenticator of the extension module return, so no
  \<^verbatim>\<open>ValueError\<close> reaches the \<^verbatim>\<open>except\<close> clause from them.
\<close>

definition handle_token ::
  "'e cbs_env_scheme \<Rightarrow> SASTokenAuth \<Rightarrow> (bool \<times> bool) outcome \<times> SASTokenAuth" where
  "handle_token e a =
     (let auth_status = status e in
      if auth_status = Error then
        (if retries a \<ge> TokenRetryPolicy.retries (retry_policy a)
         then (Raised (TokenAuthFailure (fst (failure_info e)) (snd (failure_info e))), a)
         else (Returned (False, True),
               a\<lparr> retries := retries a + 1,
                  cbs_calls := cbs_calls a @ [Slept (backoff (retry_policy a)), CBS_authenticate] \<rparr>))
      else if auth_status = Failure then (Returned (False, False), a)
      else if auth_status = Expired then (Raised TokenExpired, a)
      else if auth_status = Timeout then (Returned (True, False), a)
      else if auth_status = InProgress then (Returned (False, True), a)
      else if auth_status = RefreshRequired then
        (case update_token e a of
           (Raised x, a') \<Rightarrow> (Raised x, a')
         | (Returned u, a') \<Rightarrow>
             (Returned (False, False),
              a'\<lparr> cbs_calls := cbs_calls a' @ [CBS_refresh (token a') (expires_at a')] \<rparr>))
      else if auth_status = Idle then
        (Returned (False, True), a\<lparr> cbs_calls := cbs_calls a @ [CBS_authenticate] \<rparr>)
      else if auth_status \<noteq> Ok then (Raised AuthenticationException, a)
      else (Returned (False, False), a))"

text \<open>
  \<^verbatim>\<open>CBSAsyncAuthMixin.handle_token_async\<close>: the same statements with the blocking
  calls awaited.  Its last branch raises \<^verbatim>\<open>ValueError\<close>, which the enclosing
  \<^verbatim>\<open>except ValueError\<close> turns into \<^verbatim>\<open>AuthenticationException\<close>.
\<close>

definition handle_token_async ::
  "'e cbs_env_scheme \<Rightarrow> SASTokenAuth \<Rightarrow> (bool \<times> bool) outcome \<times> SASTokenAuth" where
  "handle_token_async e a =
     (let auth_status = status e in
      if auth_status = Error then
        (if retries a \<ge> TokenRetryPolicy.retries (retry_policy a)
         then (Raised (TokenAuthFailure (fst (failure_info e)) (snd (failure_info e))), a)
         else (Returned (False, True),
               a\<lparr> retries := retries a + 1,
                  cbs_calls := cbs_calls a @ [Slept (backoff (retry_policy a)), CBS_authenticate] \<rparr>))
      else if auth_status = Failure then (Returned (False, False), a)
      else if auth_status = Expired then (Raised TokenExpired, a)
      else if auth_status = Timeout then (Returned (True, False), a)
      else if auth_status = InProgress then (Returned (False, True), a)
      else if auth_status = RefreshRequired then
        (case update_token e a of
           (Raised x, a') \<Rightarrow> (Raised x, a')
         | (Returned u, a') \<Rightarrow>
             (Returned (False, False),
              a'\<lparr> cbs_calls := cbs_calls a' @ [CBS_refresh (token a') (expires_at a')] \<rparr>))
      else if auth_status = Idle then
        (Returned (False, True), a\<lparr> cbs_calls := cbs_calls a @ [CBS_authenticate] \<rparr>)
      else if auth_status \<noteq> Ok then (Raised AuthenticationException, a)
      else (Returned (False, False), a))"

text \<open>The authenticator after consecutive calls of \<^verbatim>\<open>handle_token\<close>, one per
  observed environment, whatever each call's outcome.\<close>

fun handle_token_calls :: "'e cbs_env_scheme list \<Rightarrow> SASTokenAuth \<Rightarrow> SASTokenAuth" where
  "handle_token_calls [] a = a"
| "handle_token_calls (e # es) a = handle_token_calls es (snd (handle_token e a))"

section \<open>The client (\<^verbatim>\<open>client.py\<close>)\<close>

subsection \<open>\<^verbatim>\<open>AMQPClient\<close>\<close>

text \<open>
  \<^verbatim>\<open>self._auth\<close> is a SASL authentication or one that mixes in
  \<^verbatim>\<open>CBSAuthMixin\<close>; \<^verbatim>\<open>isinstance(self._auth, CBSAuthMixin)\<close> is
  \<open>is_CBSAuth\<close>.
\<close>

datatype AMQPAuth = SASLAnonymous | SASLPlain | CBSAuth SASTokenAuth

fun is_CBSAuth :: "AMQPAuth \<Rightarrow> bool" where
  "is_CBSAuth (CBSAuth a) = True"
| "is_CBSAuth x = False"

text \<open>A \<^verbatim>\<open>Connection\<close>: whether its \<^verbatim>\<open>cbs\<close> attribute holds an authenticator,
  and its \<^verbatim>\<open>auth\<close> attribute.\<close>

record Connection =
  cbs :: bool
  conn_auth :: AMQPAuth

text \<open>A client's session is the CBS authentication's own session or one the client
  created for itself.\<close>

datatype Session = CBSSession | ClientSession

text \<open>
  Modelled from the spec: \<^verbatim>\<open>constants.MessageSenderState\<close>,
  \<^verbatim>\<open>constants.MessageReceiverState\<close>, \<^verbatim>\<open>constants.MessageState\<close> and
  \<^verbatim>\<open>constants.MessageSendResult\<close> are not in the sources; the spec gives the link
  states and the message states (section 3), and the sources name the send results
  \<^verbatim>\<open>Timeout\<close> and \<^verbatim>\<open>Error\<close>.
\<close>

datatype MessageSenderState =
  SenderIdle | SenderOpening | SenderOpen | SenderClosing | SenderError | SenderClosed

datatype MessageReceiverState =
  ReceiverIdle | ReceiverOpening | ReceiverOpen | ReceiverClosing | ReceiverError | ReceiverClosed

datatype MessageState = WaitingToBeSent | WaitingForAck | Complete | Failed

datatype MessageSendResult = SendOk | SendError | SendTimeout

text \<open>Calls a client makes on its collaborators, in order.  \<open>SendAsync i t\<close> is
  \<^verbatim>\<open>send_async\<close> on the message object \<open>i\<close> with \<^verbatim>\<open>timeout=t\<close>.\<close>

datatype call =
    ConnectionWork | ConnectionDestroy | SessionDestroy
  | CreateAuthenticator | CloseAuthenticator
  | OpenSender | DestroySender | SendAsync nat rat
  | OpenReceiver | DestroyReceiver

record AMQPClient =
  auth :: AMQPAuth
  shutdown :: bool
  connection :: "Connection option"
  ext_connection :: bool
  session :: "Session option"
  calls :: "call list"

text \<open>\<^verbatim>\<open>AMQPClient.__init__\<close>: without an \<^verbatim>\<open>auth\<close> argument the credentials of
  the address decide between SASL Plain and SASL Anonymous.\<close>

definition AMQPClient_init :: "AMQPAuth option \<Rightarrow> string option \<Rightarrow> string option \<Rightarrow> AMQPClient" where
  "AMQPClient_init a address_username address_password =
     \<lparr> auth = (case a of
                 Some x \<Rightarrow> x
               | None \<Rightarrow> if \<not> falsy address_username \<and> \<not> falsy address_password
                         then SASLPlain else SASLAnonymous),
       shutdown = False, connection = None, ext_connection = False, session = None,
       calls = [] \<rparr>"

text \<open>\<^verbatim>\<open>AMQPClient.open\<close>, with the optional existing connection.\<close>

definition AMQPClient_open ::
  "Connection option \<Rightarrow> 'a AMQPClient_scheme \<Rightarrow> unit outcome \<times> 'a AMQPClient_scheme" where
  "AMQPClient_open conn c =
     (if session c \<noteq> None then (Returned (), c)
      else
        let c1 = (case conn of
                    Some k \<Rightarrow> c\<lparr> auth := conn_auth k, ext_connection := True \<rparr>
                  | None \<Rightarrow> c);
            k = (case conn of
                   Some k \<Rightarrow> k
                 | None \<Rightarrow> \<lparr> cbs = False, conn_auth = auth c1 \<rparr>);
            c2 = c1\<lparr> connection := Some k \<rparr>
        in if \<not> cbs k \<and> is_CBSAuth (auth c2) then
             (Returned (),
              c2\<lparr> connection := Some (k\<lparr> cbs := True \<rparr>),
                  calls := calls c2 @ [CreateAuthenticator],
                  session := Some CBSSession \<rparr>)
           else if cbs k then
             (if is_CBSAuth (auth c2) then (Returned (), c2\<lparr> session := Some CBSSession \<rparr>)
              else (Raised AttributeError, c2))
           else (Returned (), c2\<lparr> session := Some ClientSession \<rparr>))"

text \<open>\<^verbatim>\<open>AMQPClient.close\<close>.  Reading \<^verbatim>\<open>self._connection.cbs\<close> on a missing
  connection, or closing the authenticator of a SASL authentication, is an
  \<^verbatim>\<open>AttributeError\<close>.\<close>

definition AMQPClient_close ::
  "'a AMQPClient_scheme \<Rightarrow> unit outcome \<times> 'a AMQPClient_scheme" where
  "AMQPClient_close c =
     (case session c of
        None \<Rightarrow> (Returned (), c)
      | Some s \<Rightarrow>
          (case connection c of
             None \<Rightarrow> (Raised AttributeError, c)
           | Some k \<Rightarrow>
               if cbs k \<and> \<not> ext_connection c \<and> \<not> is_CBSAuth (auth c)
               then (Raised AttributeError, c)
               else
                 let c1 = (if cbs k \<and> \<not> ext_connection c then
                             c\<lparr> calls := calls c @ [CloseAuthenticator],
                                connection := Some (k\<lparr> cbs := False \<rparr>) \<rparr>
                           else if \<not> cbs k then c\<lparr> calls := calls c @ [SessionDestroy] \<rparr>
                           else c);
                     c2 = c1\<lparr> session := None \<rparr>;
                     c3 = (if \<not> ext_connection c2
                           then c2\<lparr> calls := calls c2 @ [ConnectionDestroy] \<rparr>
                           else c2)
                 in (Returned (), c3\<lparr> connection := None \<rparr>)))"

text \<open>\<^verbatim>\<open>self._auth.handle_token()\<close> as the client calls it.\<close>

definition auth_handle_token ::
  "'e cbs_env_scheme \<Rightarrow> 'a AMQPClient_scheme \<Rightarrow> (bool \<times> bool) outcome \<times> 'a AMQPClient_scheme" where
  "auth_handle_token e c =
     (case auth c of
        CBSAuth a \<Rightarrow> (case handle_token e a of (r, a') \<Rightarrow> (r, c\<lparr> auth := CBSAuth a' \<rparr>))
      | SASLPlain \<Rightarrow> (Raised AttributeError, c)
      | SASLAnonymous \<Rightarrow> (Raised AttributeError, c))"

text \<open>
  \<^verbatim>\<open>AMQPClient.do_work\<close>.  The arguments \<open>work\<close>, \<open>client_ready\<close> and
  \<open>client_run\<close> are what \<^verbatim>\<open>self._connection.work()\<close>, \<^verbatim>\<open>self._client_ready()\<close>
  and \<^verbatim>\<open>self._client_run()\<close> do to the client that calls them: the last two are
  overridden by the sending and the receiving client, and the callbacks that a
  connection iteration delivers depend on the client too.
\<close>

definition do_work ::
  "('a AMQPClient_scheme \<Rightarrow> 'a AMQPClient_scheme)
    \<Rightarrow> ('a AMQPClient_scheme \<Rightarrow> bool outcome \<times> 'a AMQPClient_scheme)
    \<Rightarrow> ('a AMQPClient_scheme \<Rightarrow> bool outcome \<times> 'a AMQPClient_scheme)
    \<Rightarrow> 'e cbs_env_scheme \<Rightarrow> 'a AMQPClient_scheme \<Rightarrow> bool outcome \<times> 'a AMQPClient_scheme" where
  "do_work work client_ready client_run e c =
     (case connection c of
        None \<Rightarrow> (Raised AttributeError, c)
      | Some k \<Rightarrow>
          (case (if cbs k then auth_handle_token e c else (Returned (False, False), c)) of
             (Raised x, c1) \<Rightarrow> (Raised x, c1)
           | (Returned (timeout, auth_in_progress), c1) \<Rightarrow>
               if shutdown c1 then (Returned False, c1)
               else if timeout then (Raised TimeoutError, c1)
               else if auth_in_progress then (Returned True, work c1)
               else
                 (case client_ready c1 of
                    (Raised x, c2) \<Rightarrow> (Raised x, c2)
                  | (Returned ready, c2) \<Rightarrow>
                      if \<not> ready then (Returned True, work c2) else client_run c2)))"

text \<open>
  What one call of \<^verbatim>\<open>do_work\<close> observes besides the CBS status: the successive
  readings of the tick counter, and what the connection iteration delivers through
  the callbacks (a change of the link's state, the results of messages handed to the
  sender, the messages received).  \<open>loop_ms\<close> is the reading that the batch receive
  loop takes before this call.
\<close>

record work_env = cbs_env +
  current_ms :: "nat \<Rightarrow> int"
  loop_ms :: int
  sender_state :: "MessageSenderState option"
  receiver_state :: "MessageReceiverState option"
  sent_results :: "nat \<Rightarrow> MessageSendResult option"
  delivered :: "nat list"

subsection \<open>\<^verbatim>\<open>SendClient\<close>\<close>

text \<open>A \<^verbatim>\<open>Message\<close> object as the sending client uses it.  Message objects live in
  a heap indexed by object identity: the pending list, the snapshot taken by
  \<^verbatim>\<open>send_all_messages\<close> and the sender all refer to the same objects.\<close>

record Message =
  state :: MessageState
  idle_time :: int

record SendClient = AMQPClient +
  msg_timeout :: int
  pending_messages :: "nat list"
  message_sender :: "MessageSenderState option"
  heap :: "nat \<Rightarrow> Message"









text \<open>\<^verbatim>\<open>SendClient.close\<close>.\<close>

definition SendClient_close :: "SendClient \<Rightarrow> unit outcome \<times> SendClient" where
  "SendClient_close c =
     (let c1 = (if message_sender c \<noteq> None
                then c\<lparr> calls := calls c @ [DestroySender], message_sender := None \<rparr>
                else c)
      in case AMQPClient_close c1 of
           (Raised x, c2) \<Rightarrow> (Raised x, c2)
         | (Returned u, c2) \<Rightarrow> (Returned (), c2\<lparr> pending_messages := [] \<rparr>))"






subsection \<open>\<^verbatim>\<open>ReceiveClient\<close>\<close>

text \<open>
  Received messages are numbers.  \<^verbatim>\<open>self._received_messages\<close> is \<^verbatim>\<open>None\<close>
  or a queue, oldest message first; a user callback returns a replacement message or
  nothing.
\<close>

record ReceiveClient = AMQPClient +
  timeout :: int
  message_receiver :: "MessageReceiverState option"
  last_activity_timestamp :: "int option"
  was_message_received :: bool
  message_received_callback :: "(nat \<Rightarrow> nat option) option"
  received_messages :: "nat list option"
  prefetch :: int

text \<open>\<^verbatim>\<open>ReceiveClient.__init__\<close>: \<^verbatim>\<open>kwargs.pop('prefetch', None) or 300\<close>.\<close>

definition ReceiveClient_init ::
  "AMQPAuth option \<Rightarrow> string option \<Rightarrow> string option \<Rightarrow> int \<Rightarrow> int option \<Rightarrow> ReceiveClient" where
  "ReceiveClient_init a address_username address_password timeout_ms prefetch_arg =
     AMQPClient.extend (AMQPClient_init a address_username address_password)
       (ReceiveClient.fields timeout_ms None None False None None
          (if falsy_int prefetch_arg then 300 else the prefetch_arg))"

definition queue_of :: "ReceiveClient \<Rightarrow> nat list" where
  "queue_of c = (case received_messages c of None \<Rightarrow> [] | Some q \<Rightarrow> q)"

definition qsize :: "ReceiveClient \<Rightarrow> int" where
  "qsize c = int (length (queue_of c))"

text \<open>\<^verbatim>\<open>ReceiveClient._message_received\<close>.\<close>

definition message_received :: "nat \<Rightarrow> ReceiveClient \<Rightarrow> ReceiveClient" where
  "message_received message c =
     (let c1 = c\<lparr> was_message_received := True \<rparr>;
          wrapped_message =
            (case message_received_callback c1 of
               None \<Rightarrow> message
             | Some f \<Rightarrow> (case f message of None \<Rightarrow> message | Some m \<Rightarrow> m))
      in case received_messages c1 of
           None \<Rightarrow> c1
         | Some q \<Rightarrow> c1\<lparr> received_messages := Some (q @ [wrapped_message]) \<rparr>)"

text \<open>One \<^verbatim>\<open>connection.work()\<close> of a receiving client: the state-changed callback
  of the receiver and the message-received callback for each delivery, if there is a
  receiver.\<close>

definition ReceiveClient_connection_work :: "'e work_env_scheme \<Rightarrow> ReceiveClient \<Rightarrow> ReceiveClient" where
  "ReceiveClient_connection_work e c =
     (let c1 = c\<lparr> calls := calls c @ [ConnectionWork] \<rparr>
      in case message_receiver c1 of
           None \<Rightarrow> c1
         | Some s \<Rightarrow>
             fold message_received (delivered e)
               (c1\<lparr> message_receiver :=
                      (case receiver_state e of None \<Rightarrow> Some s | Some s' \<Rightarrow> Some s') \<rparr>))"

text \<open>\<^verbatim>\<open>ReceiveClient._client_ready\<close>.\<close>

definition ReceiveClient_client_ready ::
  "'e work_env_scheme \<Rightarrow> ReceiveClient \<Rightarrow> bool outcome \<times> ReceiveClient" where
  "ReceiveClient_client_ready e c =
     (case message_receiver c of
        None \<Rightarrow>
          (Returned False,
           c\<lparr> message_receiver := Some ReceiverIdle, calls := calls c @ [OpenReceiver] \<rparr>)
      | Some s \<Rightarrow>
          if s = ReceiverError then (Raised AMQPConnectionError, c)
          else if s \<noteq> ReceiverOpen then
            (Returned False, c\<lparr> last_activity_timestamp := Some (current_ms e 0) \<rparr>)
          else (Returned True, c))"

text \<open>\<^verbatim>\<open>ReceiveClient._client_run\<close>.\<close>

definition ReceiveClient_client_run ::
  "'e work_env_scheme \<Rightarrow> ReceiveClient \<Rightarrow> bool outcome \<times> ReceiveClient" where
  "ReceiveClient_client_run e c =
     (let c1 = ReceiveClient_connection_work e c;
          c2 = (if timeout c1 > 0 then
                  let now = current_ms e 0 in
                  if \<not> falsy_int (last_activity_timestamp c1) \<and> \<not> was_message_received c1 then
                    (let timespan = now - the (last_activity_timestamp c1)
                     in if timespan \<ge> timeout c1 then c1\<lparr> shutdown := True \<rparr> else c1)
                  else c1\<lparr> last_activity_timestamp := Some now \<rparr>
                else c1)
      in (Returned True, c2\<lparr> was_message_received := False \<rparr>))"

definition ReceiveClient_do_work ::
  "'e work_env_scheme \<Rightarrow> ReceiveClient \<Rightarrow> bool outcome \<times> ReceiveClient" where
  "ReceiveClient_do_work e c =
     do_work (ReceiveClient_connection_work e) (ReceiveClient_client_ready e)
       (ReceiveClient_client_run e) e c"

text \<open>\<^verbatim>\<open>ReceiveClient.close\<close>.\<close>

definition ReceiveClient_close :: "ReceiveClient \<Rightarrow> unit outcome \<times> ReceiveClient" where
  "ReceiveClient_close c =
     (let c1 = (if message_receiver c \<noteq> None
                then c\<lparr> calls := calls c @ [DestroyReceiver], message_receiver := None \<rparr>
                else c)
      in case AMQPClient_close c1 of
           (Raised x, c2) \<Rightarrow> (Raised x, c2)
         | (Returned u, c2) \<Rightarrow>
             (Returned (),
              c2\<lparr> shutdown := False, last_activity_timestamp := None,
                  was_message_received := False \<rparr>))"

text \<open>
  \<^verbatim>\<open>while not self._received_messages.empty() and len(batch) < max_batch_size\<close>:
  move messages from the queue to the batch.  The result is the batch and what is
  left of the queue.
\<close>

fun drain :: "int \<Rightarrow> nat list \<Rightarrow> nat list \<Rightarrow> nat list \<times> nat list" where
  "drain max_batch_size batch [] = (batch, [])"
| "drain max_batch_size batch (m # q) =
     (if int (length batch) < max_batch_size then drain max_batch_size (batch @ [m]) q
      else (batch, m # q))"

definition drain_queue :: "int \<Rightarrow> nat list \<Rightarrow> ReceiveClient \<Rightarrow> nat list \<times> ReceiveClient" where
  "drain_queue max_batch_size batch c =
     (case drain max_batch_size batch (queue_of c) of
        (batch', q) \<Rightarrow> (batch', c\<lparr> received_messages := Some q \<rparr>))"

text \<open>
  The inner loop of \<^verbatim>\<open>receive_message_batch\<close>:
  \<^verbatim>\<open>while receiving and self._received_messages.qsize() < max_batch_size\<close>.
  Each \<^verbatim>\<open>do_work\<close> uses up one environment.  The result is the outcome with the
  flags \<^verbatim>\<open>(receiving, expired)\<close>, the client, and the environments not used;
  \<open>None\<close> says that the environments were used up before the loop ended.
  \<open>deadline\<close> is the local variable \<^verbatim>\<open>timeout\<close> after its reassignment.
\<close>

fun tick_loop ::
  "int \<Rightarrow> int \<Rightarrow> bool \<Rightarrow> 'e work_env_scheme list \<Rightarrow> ReceiveClient
    \<Rightarrow> ((bool \<times> bool) outcome \<times> ReceiveClient \<times> 'e work_env_scheme list) option" where
  "tick_loop max_batch_size deadline receiving [] c =
     (if receiving \<and> qsize c < max_batch_size then None
      else Some (Returned (receiving, False), c, []))"
| "tick_loop max_batch_size deadline receiving (e # es) c =
     (if receiving \<and> qsize c < max_batch_size then
        if deadline > 0 \<and> loop_ms e > deadline then Some (Returned (receiving, True), c, e # es)
        else
          let before = qsize c in
          (case ReceiveClient_do_work e c of
             (Raised x, c') \<Rightarrow> Some (Raised x, c', es)
           | (Returned r, c') \<Rightarrow>
               let received = qsize c' - before in
               if qsize c' > 0 \<and> received = 0 then Some (Returned (r, True), c', es)
               else tick_loop max_batch_size deadline r es c')
      else Some (Returned (receiving, False), c, e # es))"

text \<open>Two facts about the loops, for the termination of the outer loop: a batch that
  is still short after draining has taken the whole queue, and the inner loop ends
  unexpired only when reception stopped or the queue reached the batch size.\<close>

lemma drain_short:
  "drain mbs batch q = (b, q') \<Longrightarrow> int (length b) < mbs
    \<Longrightarrow> q' = [] \<and> length b = length batch + length q"
  by (induction mbs batch q rule: drain.induct) (auto split: if_splits)

lemma tick_loop_not_expired:
  "tick_loop mbs dl rv es c = Some (Returned (r, False), c', es') \<Longrightarrow> \<not> r \<or> mbs \<le> qsize c'"
  by (induction mbs dl rv es c rule: tick_loop.induct)
     (auto simp: Let_def split: if_splits prod.splits outcome.splits)

text \<open>
  The outer loop of \<^verbatim>\<open>receive_message_batch\<close>:
  \<^verbatim>\<open>while receiving and not expired and len(batch) < max_batch_size\<close>, whose body
  is the inner loop followed by a drain of the queue.
\<close>

function batch_loop ::
  "int \<Rightarrow> int \<Rightarrow> bool \<Rightarrow> bool \<Rightarrow> nat list \<Rightarrow> 'e work_env_scheme list \<Rightarrow> ReceiveClient
    \<Rightarrow> (nat list outcome \<times> ReceiveClient \<times> 'e work_env_scheme list) option" where
  "batch_loop max_batch_size deadline receiving expired batch es c =
     (if receiving \<and> \<not> expired \<and> int (length batch) < max_batch_size then
        (case tick_loop max_batch_size deadline receiving es c of
           None \<Rightarrow> None
         | Some (Raised x, c', es') \<Rightarrow> Some (Raised x, c', es')
         | Some (Returned (r, ex), c', es') \<Rightarrow>
             (case drain_queue max_batch_size batch c' of
                (batch', c'') \<Rightarrow> batch_loop max_batch_size deadline r ex batch' es' c''))
      else Some (Returned batch, c, es))"
  by pat_completeness auto
termination batch_loop
proof (relation "measure (\<lambda>(mbs, dl, receiving, expired, batch, es, c).
         if receiving \<and> \<not> expired \<and> int (length batch) < mbs then 1 else 0)", goal_cases)
  case 1
  show ?case by simp
next
  case 2
  then show ?case
    apply (auto simp: drain_queue_def split: prod.splits)
    apply (drule tick_loop_not_expired)
    apply (auto dest!: drain_short simp: qsize_def)
    done
qed

text \<open>The defining equation of the outer loop is unfolded by hand.\<close>

declare batch_loop.simps [simp del]

text \<open>
  \<^verbatim>\<open>ReceiveClient.receive_message_batch\<close>.  \<open>start_ms\<close> is the tick counter
  reading taken when the deadline is computed; the third component of the result is
  the list of environments that no \<^verbatim>\<open>do_work\<close> used.
\<close>

definition receive_message_batch ::
  "'e work_env_scheme list \<Rightarrow> int option \<Rightarrow> (nat \<Rightarrow> nat option) option \<Rightarrow> int \<Rightarrow> int
    \<Rightarrow> ReceiveClient \<Rightarrow> (nat list outcome \<times> ReceiveClient \<times> 'e work_env_scheme list) option" where
  "receive_message_batch es max_batch_size_arg on_message_received timeout_arg start_ms c =
     (let c1 = c\<lparr> message_received_callback := on_message_received \<rparr>;
          max_batch_size = (if falsy_int max_batch_size_arg then prefetch c1
                            else the max_batch_size_arg)
      in if max_batch_size > prefetch c1 then Some (Raised ValueError, c1, es)
         else
           let deadline = (if timeout_arg \<noteq> 0 then start_ms + timeout_arg else 0);
               c2 = c1\<lparr> received_messages := Some (queue_of c1) \<rparr>
           in case AMQPClient_open None c2 of
                (Raised x, c3) \<Rightarrow> Some (Raised x, c3, es)
              | (Returned u, c3) \<Rightarrow>
                  (case drain_queue max_batch_size [] c3 of
                     (batch, c4) \<Rightarrow>
                       if int (length batch) \<ge> max_batch_size then Some (Returned batch, c4, es)
                       else batch_loop max_batch_size deadline True False batch es c4))"

section \<open>Management operations (\<^verbatim>\<open>mgmt_operation.py\<close>)\<close>

text \<open>
  \<^verbatim>\<open>self._responses\<close> maps an operation id to \<^verbatim>\<open>None\<close> (the placeholder) or
  to the response message; \<^verbatim>\<open>self.mgmt_error\<close> is \<^verbatim>\<open>None\<close> or the error to
  raise.
\<close>

record MgmtOperation =
  responses :: "string \<rightharpoonup> nat option"
  mgmt_error :: "error option"
  mgmt_calls :: "string list"
  work_count :: nat

text \<open>
  What one iteration of the loop in \<^verbatim>\<open>execute\<close> observes: the tick counter, and
  whether the connection iteration delivers the completion callback (with the
  response message) or the error callback.
\<close>

record mgmt_env =
  now_ms :: int
  completed :: "nat option"
  link_error :: bool

text \<open>\<^verbatim>\<open>self.connection.work()\<close> during \<^verbatim>\<open>execute\<close> for the operation
  \<open>operation_id\<close>: \<^verbatim>\<open>on_complete\<close> stores the response under the id,
  \<^verbatim>\<open>_management_operation_error\<close> sets the error.\<close>

definition mgmt_connection_work :: "string \<Rightarrow> mgmt_env \<Rightarrow> MgmtOperation \<Rightarrow> MgmtOperation" where
  "mgmt_connection_work operation_id e m =
     (let m1 = m\<lparr> work_count := work_count m + 1 \<rparr>;
          m2 = (case completed e of
                  None \<Rightarrow> m1
                | Some r \<Rightarrow> m1\<lparr> responses := (responses m1)(operation_id \<mapsto> Some r) \<rparr>)
      in if link_error e then m2\<lparr> mgmt_error := Some ValueError \<rparr> else m2)"

text \<open>
  The loop of \<^verbatim>\<open>execute\<close>:
  \<^verbatim>\<open>while not self._responses[operation_id] and not self.mgmt_error\<close>.
  \<open>None\<close> says that the environments were used up before the loop ended.
\<close>

fun await_response ::
  "string \<Rightarrow> int \<Rightarrow> int \<Rightarrow> mgmt_env list \<Rightarrow> MgmtOperation \<Rightarrow> (unit outcome \<times> MgmtOperation) option" where
  "await_response operation_id start_time tmo [] m =
     (case responses m operation_id of
        None \<Rightarrow> Some (Raised KeyError, m)
      | Some (Some r) \<Rightarrow> Some (Returned (), m)
      | Some None \<Rightarrow> if mgmt_error m \<noteq> None then Some (Returned (), m) else None)"
| "await_response operation_id start_time tmo (e # es) m =
     (case responses m operation_id of
        None \<Rightarrow> Some (Raised KeyError, m)
      | Some (Some r) \<Rightarrow> Some (Returned (), m)
      | Some None \<Rightarrow>
          if mgmt_error m \<noteq> None then Some (Returned (), m)
          else if tmo > 0 \<and> now_ms e - start_time \<ge> tmo then Some (Raised TimeoutError, m)
          else await_response operation_id start_time tmo es
                 (mgmt_connection_work operation_id e m))"

text \<open>
  \<^verbatim>\<open>MgmtOperation.execute\<close> (and \<^verbatim>\<open>MgmtOperationAsync.execute_async\<close>, which
  differs only in awaiting the connection iteration).  \<open>operation_id\<close> is the fresh
  \<^verbatim>\<open>uuid4\<close>, \<open>start_time\<close> the first reading of the tick counter.
\<close>

definition execute ::
  "string \<Rightarrow> int \<Rightarrow> int \<Rightarrow> mgmt_env list \<Rightarrow> MgmtOperation
    \<Rightarrow> (nat option outcome \<times> MgmtOperation) option" where
  "execute operation_id start_time tmo es m =
     (let m1 = m\<lparr> responses := (responses m)(operation_id \<mapsto> None),
                  mgmt_calls := mgmt_calls m @ [operation_id] \<rparr>
      in case await_response operation_id start_time tmo es m1 of
           None \<Rightarrow> None
         | Some (Raised x, m2) \<Rightarrow> Some (Raised x, m2)
         | Some (Returned u, m2) \<Rightarrow>
             (case mgmt_error m2 of
                Some x \<Rightarrow> Some (Raised x, m2)
              | None \<Rightarrow>
                  (case responses m2 operation_id of
                     None \<Rightarrow> Some (Raised KeyError, m2)
                   | Some response \<Rightarrow>
                       Some (Returned response,
                             m2\<lparr> responses := (responses m2)(operation_id := None) \<rparr>))))"

section \<open>Notions used in the statements\<close>



text \<open>The end of \<^verbatim>\<open>receive_message_batch\<close> once its loops are left: the queue is
  drained into the batch a last time and the batch is returned, \<open>es\<close> being the
  environments that no \<^verbatim>\<open>do_work\<close> used.\<close>

definition return_batch ::
  "int \<Rightarrow> nat list \<Rightarrow> ReceiveClient \<Rightarrow> 'e work_env_scheme list
    \<Rightarrow> (nat list outcome \<times> ReceiveClient \<times> 'e work_env_scheme list) option" where
  "return_batch max_batch_size batch c es =
     (case drain_queue max_batch_size batch c of (b, c') \<Rightarrow> Some (Returned b, c', es))"

section \<open>Concrete objects\<close>

text \<open>Objects and environments at which the theorems below are instantiated.\<close>

definition polled :: "CBSAuthStatus \<Rightarrow> cbs_env" where
  "polled s = \<lparr> status = s, failure_info = (401, ''denied''), time_time = 1000, created_token = ''t2'' \<rparr>"

definition sample_auth :: "int \<Rightarrow> SASTokenAuth" where
  "sample_auth n =
     \<lparr> retry_policy = TokenRetryPolicy_init n 0, username = Some ''key'', password = Some ''secret'',
       token = ''t1'', expires_at = 4600, expires_in = 3600, retries = 0, cbs_calls = [] \<rparr>"

definition sample_mgmt :: MgmtOperation where
  "sample_mgmt = \<lparr> responses = Map.empty, mgmt_error = None, mgmt_calls = [], work_count = 0 \<rparr>"

definition silent :: "int \<Rightarrow> mgmt_env" where
  "silent t = \<lparr> now_ms = t, completed = None, link_error = False \<rparr>"

definition sample_client :: "bool \<Rightarrow> AMQPClient" where
  "sample_client down =
     \<lparr> auth = CBSAuth (sample_auth 3), shutdown = down,
       connection = Some \<lparr> cbs = True, conn_auth = CBSAuth (sample_auth 3) \<rparr>,
       ext_connection = False, session = Some CBSSession, calls = [CreateAuthenticator] \<rparr>"

definition sample_sender :: SendClient where
  "sample_sender =
     AMQPClient.extend (sample_client False)
       (SendClient.fields 1 [0, 1] (Some SenderOpen)
          (\<lambda>i. \<lparr> state = WaitingToBeSent, idle_time = 0 \<rparr>))"

definition sample_receiver :: ReceiveClient where
  "sample_receiver =
     AMQPClient.extend (sample_client False)
       (ReceiveClient.fields 0 (Some ReceiverOpen) (Some 5) True None (Some [7]) 10)"





definition quiet :: "int \<Rightarrow> nat list \<Rightarrow> work_env" where
  "quiet t ms =
     \<lparr> status = Ok, failure_info = (0, []), time_time = 1000, created_token = ''t2'',
       current_ms = (\<lambda>k. t), loop_ms = t, sender_state = None, receiver_state = None,
       sent_results = (\<lambda>i. None), delivered = ms \<rparr>"

definition listening :: ReceiveClient where
  "listening = sample_receiver\<lparr> timeout := 50, was_message_received := False,
                               received_messages := Some [] \<rparr>"

section \<open>Properties of the CBS authenticator\<close>

text \<open>
  One call of \<^verbatim>\<open>handle_token\<close> never lowers the retry counter and never touches
  the retry policy; under the status \<open>Error\<close> it either retries, adding one to the
  counter, or raises, changing nothing.
\<close>

lemma handle_token_retries_mono: "retries a \<le> retries (snd (handle_token e a))"
  by (auto simp: handle_token_def update_token_def Let_def split: prod.splits outcome.splits)


lemma handle_token_calls_append:
  "handle_token_calls (es @ fs) a = handle_token_calls fs (handle_token_calls es a)"
  by (induction es arbitrary: a) simp_all

lemma handle_token_calls_mono: "retries a \<le> retries (handle_token_calls es a)"
proof (induction es arbitrary: a)
  case Nil
  show ?case by simp
next
  case (Cons e es)
  have "retries a \<le> retries (snd (handle_token e a))"
    by (rule handle_token_retries_mono)
  also have "\<dots> \<le> retries (handle_token_calls es (snd (handle_token e a)))"
    by (rule Cons.IH)
  finally show ?case by simp
qed





text \<open>
  Claim C1: a call of \<^verbatim>\<open>handle_token\<close> (or \<^verbatim>\<open>handle_token_async\<close>) that polls
  the status \<open>Failure\<close> raises \<^verbatim>\<open>AuthenticationException\<close>.  The source does
  not do this: in both variants the branch evaluates
  \<^verbatim>\<open>errors.AuthenticationException("Failed to open CBS authentication link.")\<close>
  as an expression statement, without \<^verbatim>\<open>raise\<close>, although the docstring
  announces the exception.  For every authenticator the call returns
  \<^verbatim>\<open>(False, False)\<close>, the same answer as for the status \<open>Ok\<close>, and leaves the
  authenticator as it was.
\<close>

theorem C1_handle_token_Failure_returns:
  "handle_token (e\<lparr> status := Failure \<rparr>) a = (Returned (False, False), a) \<and>
   handle_token_async (e\<lparr> status := Failure \<rparr>) a = (Returned (False, False), a)"
  by (simp add: handle_token_def handle_token_async_def)



text \<open>
  Claim C9: the retry counter of one authenticator never decreases.  No single call
  of \<^verbatim>\<open>handle_token\<close> or \<^verbatim>\<open>handle_token_async\<close> lowers it, whatever the status
  and the outcome, so no sequence of calls does; a call that polls \<open>Ok\<close> (a retry
  that succeeded) leaves the authenticator, counter included, as it is; and the
  constructor is what sets the counter to 0.
\<close>

theorem C9_retry_counter_never_decreases:
  "retries a \<le> retries (snd (handle_token e a))
   \<and> retries a \<le> retries (snd (handle_token_async e a))
   \<and> retries a \<le> retries (handle_token_calls es a)
   \<and> handle_token (e\<lparr> status := Ok \<rparr>) a = (Returned (False, False), a)
   \<and> (\<forall>a'. SASTokenAuth_init policy uu up user pass tok exp_in exp_at now = Inr a'
            \<longrightarrow> retries a' = 0)"
proof -
  have "retries a \<le> retries (snd (handle_token_async e a))"
    by (auto simp: handle_token_async_def update_token_def Let_def split: prod.splits outcome.splits)
  moreover have "handle_token (e\<lparr> status := Ok \<rparr>) a = (Returned (False, False), a)"
    by (simp add: handle_token_def)
  moreover have "\<forall>a'. SASTokenAuth_init policy uu up user pass tok exp_in exp_at now = Inr a'
            \<longrightarrow> retries a' = 0"
    by (auto simp: SASTokenAuth_init_def Let_def split: if_splits)
  ultimately show ?thesis
    using handle_token_retries_mono [of a e] handle_token_calls_mono [of a es] by blast
qed

theorem C9_retry_counter_never_decreases_witness:
  "SASTokenAuth_init (TokenRetryPolicy_init 3 0) None None (Some ''key'') (Some ''secret'')
      ''t1'' (Some 3600) None 1000 = Inr (sample_auth 3)
   \<and> retries (sample_auth 3) = 0
   \<and> retries (handle_token_calls [polled Error, polled InProgress, polled Ok] (sample_auth 3)) = 1
   \<and> retries (handle_token_calls [polled Error, polled InProgress, polled Ok] (sample_auth 3))
       \<le> retries (handle_token_calls [polled Ok, polled Error]
            (handle_token_calls [polled Error, polled InProgress, polled Ok] (sample_auth 3)))"
proof -
  have i: "SASTokenAuth_init (TokenRetryPolicy_init 3 0) None None (Some ''key'') (Some ''secret'')
      ''t1'' (Some 3600) None 1000 = Inr (sample_auth 3)"
    by (simp add: SASTokenAuth_init_def sample_auth_def falsy_int_def falsy_def py_or_def
        timedelta_seconds_def)
  have r: "retries (handle_token_calls [polled Error, polled InProgress, polled Ok] (sample_auth 3)) = 1"
    by (simp add: handle_token_def polled_def sample_auth_def TokenRetryPolicy_init_def)
  note th = C9_retry_counter_never_decreases
    [of "handle_token_calls [polled Error, polled InProgress, polled Ok] (sample_auth 3)"
        "polled Ok" "[polled Ok, polled Error]"
        "TokenRetryPolicy_init 3 0" None None "Some ''key''" "Some ''secret''" "''t1''" "Some 3600" None 1000]
  from th i have z: "retries (sample_auth 3) = 0" by blast
  from th have m: "retries (handle_token_calls [polled Error, polled InProgress, polled Ok] (sample_auth 3))
       \<le> retries (handle_token_calls [polled Ok, polled Error]
            (handle_token_calls [polled Error, polled InProgress, polled Ok] (sample_auth 3)))"
    by blast
  show ?thesis using i z r m by blast
qed

section \<open>Properties of management operations\<close>

text \<open>
  \<^verbatim>\<open>MgmtOperation.execute\<close>: whatever exception ends the call, the operation id
  is still a key of the response map; only a call that returns has popped it.
\<close>

lemma await_response_keeps_id:
  "await_response oid start tmo es m = Some (r, m') \<Longrightarrow> oid \<in> dom (responses m)
    \<Longrightarrow> oid \<in> dom (responses m')"
  by (induction oid start tmo es m rule: await_response.induct)
     (auto simp: mgmt_connection_work_def Let_def split: option.splits if_splits)

lemma execute_raised_keeps_id:
  "execute oid start tmo es m = Some (Raised x, m') \<Longrightarrow> oid \<in> dom (responses m')"
  by (auto simp: execute_def Let_def dest!: await_response_keeps_id
      split: option.splits outcome.splits prod.splits)

lemma execute_returned_pops:
  "execute oid start tmo es m = Some (Returned r, m') \<Longrightarrow> oid \<notin> dom (responses m')"
  by (auto simp: execute_def Let_def split: option.splits outcome.splits prod.splits)

text \<open>
  Claim C2: \<^verbatim>\<open>execute\<close> removes the entry of its operation id from the response
  map on both outcomes.  It does so when a response arrives (\<open>execute_returned_pops\<close>).
  On the timeout path the source raises \<^verbatim>\<open>TimeoutError\<close> from inside the loop and
  nothing removes the placeholder: with \<^verbatim>\<open>timeout=100\<close>, started at tick 0, against
  a link that stays silent, the second check (at tick 100) raises, after one connection
  iteration, and the id is still a key of the map.
\<close>

theorem C2_timeout_keeps_operation_id:
  "execute ''op-1'' 0 100 [silent 40, silent 100] sample_mgmt =
     Some (Raised TimeoutError,
           sample_mgmt\<lparr> responses := [''op-1'' \<mapsto> None], mgmt_calls := [''op-1''],
                        work_count := 1 \<rparr>)
   \<and> ''op-1'' \<in> dom (responses (sample_mgmt\<lparr> responses := [''op-1'' \<mapsto> None],
                        mgmt_calls := [''op-1''], work_count := 1 \<rparr>))"
  by (simp add: execute_def sample_mgmt_def silent_def mgmt_connection_work_def)

section \<open>Properties of \<^verbatim>\<open>do_work\<close> and \<^verbatim>\<open>close\<close>\<close>

text \<open>
  \<^verbatim>\<open>AMQPClient.do_work\<close>: the token check touches nothing of the client but its
  authentication.
\<close>

lemma auth_handle_token_frame:
  "shutdown (snd (auth_handle_token e c)) = shutdown c
   \<and> calls (snd (auth_handle_token e c)) = calls c
   \<and> connection (snd (auth_handle_token e c)) = connection c
   \<and> session (snd (auth_handle_token e c)) = session c"
  by (auto simp: auth_handle_token_def split: AMQPAuth.splits prod.splits)

text \<open>
  Claim C10, as amended: \<^verbatim>\<open>do_work\<close> on an open client whose shutdown flag is set
  returns \<^verbatim>\<open>False\<close> whenever the token check did not raise (the connection has no
  CBS authenticator, or \<^verbatim>\<open>handle_token\<close> returned some pair of flags, the pair
  with \<^verbatim>\<open>timed_out = True\<close> included).  The result does not depend on what the
  connection iteration, the readiness check and the run step would do, and the log of
  calls is unchanged: none of them is invoked.  Only the authentication may have
  changed, by \<^verbatim>\<open>handle_token\<close>.
\<close>

theorem C10_shutdown_after_token_check:
  assumes "shutdown c" and "connection c = Some k"
    and "cbs k \<longrightarrow> fst (auth_handle_token e c) = Returned flags"
  shows "do_work work client_ready client_run e c =
           (Returned False, if cbs k then snd (auth_handle_token e c) else c)
       \<and> calls (snd (do_work work client_ready client_run e c)) = calls c"
proof (cases "cbs k")
  case False
  with assms show ?thesis by (simp add: do_work_def)
next
  case True
  obtain r c1 where h: "auth_handle_token e c = (r, c1)" by (cases "auth_handle_token e c")
  with assms True have r: "r = Returned flags" by simp
  have sd: "shutdown c1" and cl: "calls c1 = calls c"
    using auth_handle_token_frame [of e c] h assms(1) by simp_all
  obtain t p where "flags = (t, p)" by (cases flags)
  with assms True h r sd cl show ?thesis by (simp add: do_work_def)
qed

theorem C10_shutdown_after_token_check_witness:
  "do_work (\<lambda>c. c\<lparr> calls := calls c @ [ConnectionWork] \<rparr>)
      (\<lambda>c. (Returned True, c)) (\<lambda>c. (Returned True, c\<lparr> calls := calls c @ [ConnectionWork] \<rparr>))
      (polled Timeout) (sample_client True) = (Returned False, sample_client True)"
proof -
  have a: "shutdown (sample_client True)" by (simp add: sample_client_def)
  have b: "connection (sample_client True) = Some \<lparr> cbs = True, conn_auth = CBSAuth (sample_auth 3) \<rparr>"
    by (simp add: sample_client_def)
  have h: "auth_handle_token (polled Timeout) (sample_client True) = (Returned (True, False), sample_client True)"
    by (simp add: auth_handle_token_def handle_token_def polled_def sample_client_def)
  then have c: "cbs \<lparr> cbs = True, conn_auth = CBSAuth (sample_auth 3) \<rparr>
      \<longrightarrow> fst (auth_handle_token (polled Timeout) (sample_client True)) = Returned (True, False)"
    by simp
  show ?thesis
    using C10_shutdown_after_token_check [OF a b c] h by simp
qed

text \<open>
  Claim C10 as stated says that a set shutdown flag makes \<^verbatim>\<open>do_work\<close> return
  \<^verbatim>\<open>False\<close> without raising.  \<^verbatim>\<open>handle_token\<close> runs before the flag is read:
  when the token has expired, the call raises \<^verbatim>\<open>TokenExpired\<close> although the flag is
  set.
\<close>

theorem C10_shutdown_counterexample:
  "shutdown (sample_client True)
   \<and> do_work (\<lambda>c. c) (\<lambda>c. (Returned True, c)) (\<lambda>c. (Returned True, c))
        (polled Expired) (sample_client True) = (Raised TokenExpired, sample_client True)"
  by (simp add: do_work_def auth_handle_token_def handle_token_def polled_def sample_client_def)

text \<open>
  Claim C8: \<^verbatim>\<open>close()\<close> on a client whose session reference is \<^verbatim>\<open>None\<close>
  raises nothing and destroys neither connection, session nor CBS authenticator.  For
  \<^verbatim>\<open>AMQPClient\<close> the client is unchanged; \<^verbatim>\<open>SendClient\<close> and
  \<^verbatim>\<open>ReceiveClient\<close> at most destroy a link they still hold and reset their own
  fields, and the log of calls gains no connection, session or authenticator call.  A
  client that \<^verbatim>\<open>close()\<close> has closed is such a client: closing it once more
  returns it as it is.
\<close>

theorem C8_close_on_closed_client:
  "(session c = None \<longrightarrow> AMQPClient_close c = (Returned (), c))
   \<and> (session s = None \<longrightarrow>
        SendClient_close s =
          (Returned (),
           s\<lparr> calls := calls s @ (if message_sender s \<noteq> None then [DestroySender] else []),
              message_sender := None, pending_messages := [] \<rparr>))
   \<and> (session r = None \<longrightarrow>
        ReceiveClient_close r =
          (Returned (),
           r\<lparr> calls := calls r @ (if message_receiver r \<noteq> None then [DestroyReceiver] else []),
              message_receiver := None, shutdown := False, last_activity_timestamp := None,
              was_message_received := False \<rparr>))
   \<and> (AMQPClient_close c = (Returned (), c') \<longrightarrow> AMQPClient_close c' = (Returned (), c'))
   \<and> (SendClient_close s = (Returned (), s') \<longrightarrow> SendClient_close s' = (Returned (), s'))
   \<and> (ReceiveClient_close r = (Returned (), r') \<longrightarrow> ReceiveClient_close r' = (Returned (), r'))"
proof -
  have closed: "session x' = None"
    if "AMQPClient_close x = (Returned (), x')" for x x' :: "'z AMQPClient_scheme"
    using that
    by (auto simp: AMQPClient_close_def Let_def split: option.splits if_splits)
  have noop: "AMQPClient_close x = (Returned (), x)"
    if "session x = None" for x :: "'z AMQPClient_scheme"
    using that by (simp add: AMQPClient_close_def)
  have 1: "session c = None \<longrightarrow> AMQPClient_close c = (Returned (), c)"
    using noop by blast
  have 2: "session s = None \<longrightarrow>
        SendClient_close s =
          (Returned (),
           s\<lparr> calls := calls s @ (if message_sender s \<noteq> None then [DestroySender] else []),
              message_sender := None, pending_messages := [] \<rparr>)"
    by (auto simp: SendClient_close_def AMQPClient_close_def)
  have 3: "session r = None \<longrightarrow>
        ReceiveClient_close r =
          (Returned (),
           r\<lparr> calls := calls r @ (if message_receiver r \<noteq> None then [DestroyReceiver] else []),
              message_receiver := None, shutdown := False, last_activity_timestamp := None,
              was_message_received := False \<rparr>)"
    by (auto simp: ReceiveClient_close_def AMQPClient_close_def)
  have 4: "AMQPClient_close c = (Returned (), c') \<longrightarrow> AMQPClient_close c' = (Returned (), c')"
    using closed noop by blast
  have 5: "SendClient_close s = (Returned (), s') \<longrightarrow> SendClient_close s' = (Returned (), s')"
  proof
    assume h: "SendClient_close s = (Returned (), s')"
    then obtain x where x: "AMQPClient_close (if message_sender s \<noteq> None
                then s\<lparr> calls := calls s @ [DestroySender], message_sender := None \<rparr>
                else s) = (Returned (), x)" and s': "s' = x\<lparr> pending_messages := [] \<rparr>"
      by (auto simp: SendClient_close_def Let_def split: prod.splits outcome.splits)
    have "session x = None" using closed [OF x] .
    moreover have "message_sender x = None"
      using x by (auto simp: AMQPClient_close_def Let_def split: option.splits if_splits)
    ultimately show "SendClient_close s' = (Returned (), s')"
      using s' by (simp add: SendClient_close_def AMQPClient_close_def)
  qed
  have 6: "ReceiveClient_close r = (Returned (), r') \<longrightarrow> ReceiveClient_close r' = (Returned (), r')"
  proof
    assume h: "ReceiveClient_close r = (Returned (), r')"
    then obtain x where x: "AMQPClient_close (if message_receiver r \<noteq> None
                then r\<lparr> calls := calls r @ [DestroyReceiver], message_receiver := None \<rparr>
                else r) = (Returned (), x)"
      and r': "r' = x\<lparr> shutdown := False, last_activity_timestamp := None,
                  was_message_received := False \<rparr>"
      by (auto simp: ReceiveClient_close_def Let_def split: prod.splits outcome.splits)
    have "session x = None" using closed [OF x] .
    moreover have "message_receiver x = None"
      using x by (auto simp: AMQPClient_close_def Let_def split: option.splits if_splits)
    ultimately show "ReceiveClient_close r' = (Returned (), r')"
      using r' by (simp add: ReceiveClient_close_def AMQPClient_close_def)
  qed
  from 1 2 3 4 5 6 show ?thesis by blast
qed

theorem C8_close_on_closed_client_witness:
  "AMQPClient_close (sample_client False)
     = (Returned (), (sample_client False)\<lparr> connection := None, session := None,
          calls := [CreateAuthenticator, CloseAuthenticator, ConnectionDestroy] \<rparr>)
   \<and> AMQPClient_close (snd (AMQPClient_close (sample_client False)))
     = (Returned (), snd (AMQPClient_close (sample_client False)))
   \<and> fst (SendClient_close sample_sender) = Returned ()
   \<and> calls (snd (SendClient_close sample_sender))
     = [CreateAuthenticator, DestroySender, CloseAuthenticator, ConnectionDestroy]
   \<and> SendClient_close (snd (SendClient_close sample_sender))
     = (Returned (), snd (SendClient_close sample_sender))
   \<and> fst (ReceiveClient_close sample_receiver) = Returned ()
   \<and> calls (snd (ReceiveClient_close sample_receiver))
     = [CreateAuthenticator, DestroyReceiver, CloseAuthenticator, ConnectionDestroy]
   \<and> ReceiveClient_close (snd (ReceiveClient_close sample_receiver))
     = (Returned (), snd (ReceiveClient_close sample_receiver))"
proof -
  have a: "AMQPClient_close (sample_client False)
     = (Returned (), (sample_client False)\<lparr> connection := None, session := None,
          calls := [CreateAuthenticator, CloseAuthenticator, ConnectionDestroy] \<rparr>)"
    by (simp add: AMQPClient_close_def sample_client_def)
  have s1: "fst (SendClient_close sample_sender) = Returned ()"
    and s2: "calls (snd (SendClient_close sample_sender))
     = [CreateAuthenticator, DestroySender, CloseAuthenticator, ConnectionDestroy]"
    by (simp_all add: SendClient_close_def AMQPClient_close_def sample_sender_def sample_client_def
        AMQPClient.extend_def SendClient.fields_def)
  have r1: "fst (ReceiveClient_close sample_receiver) = Returned ()"
    and r2: "calls (snd (ReceiveClient_close sample_receiver))
     = [CreateAuthenticator, DestroyReceiver, CloseAuthenticator, ConnectionDestroy]"
    by (simp_all add: ReceiveClient_close_def AMQPClient_close_def sample_receiver_def
        sample_client_def AMQPClient.extend_def ReceiveClient.fields_def)
  have a': "AMQPClient_close (sample_client False) = (Returned (), snd (AMQPClient_close (sample_client False)))"
    using a by simp
  have s': "SendClient_close sample_sender = (Returned (), snd (SendClient_close sample_sender))"
    using s1 by (metis prod.collapse)
  have r': "ReceiveClient_close sample_receiver = (Returned (), snd (ReceiveClient_close sample_receiver))"
    using r1 by (metis prod.collapse)
  note th = C8_close_on_closed_client
    [of "sample_client False" sample_sender sample_receiver
        "snd (AMQPClient_close (sample_client False))"
        "snd (SendClient_close sample_sender)" "snd (ReceiveClient_close sample_receiver)"]
  from th a' have a2: "AMQPClient_close (snd (AMQPClient_close (sample_client False)))
     = (Returned (), snd (AMQPClient_close (sample_client False)))" by blast
  from th s' have s3: "SendClient_close (snd (SendClient_close sample_sender))
     = (Returned (), snd (SendClient_close sample_sender))" by blast
  from th r' have r3: "ReceiveClient_close (snd (ReceiveClient_close sample_receiver))
     = (Returned (), snd (ReceiveClient_close sample_receiver))" by blast
  show ?thesis using a a2 s1 s2 s3 r1 r2 r3 by blast
qed

section \<open>Properties of the sending client\<close>

























section \<open>Properties of the receiving client\<close>

text \<open>
  Draining never makes a batch longer than the batch size (or than it already was),
  so neither do the loops of \<^verbatim>\<open>receive_message_batch\<close>.
\<close>

lemma drain_bound:
  "drain mbs batch q = (b, q') \<Longrightarrow> int (length b) \<le> max (int (length batch)) mbs"
  by (induction mbs batch q rule: drain.induct) (auto split: if_splits)

lemma drain_queue_bound:
  "drain_queue mbs batch c = (b, c') \<Longrightarrow> int (length b) \<le> max (int (length batch)) mbs"
  by (auto simp: drain_queue_def split: prod.splits dest: drain_bound)

lemma batch_loop_bound:
  "batch_loop mbs dl rv ex batch es c = Some (Returned b, c', es')
    \<Longrightarrow> int (length b) \<le> max (int (length batch)) mbs"
proof (induction mbs dl rv ex batch es c rule: batch_loop.induct)
  case (1 mbs dl rv ex batch es c)
  show ?case
  proof (cases "rv \<and> \<not> ex \<and> int (length batch) < mbs")
    case False
    with "1.prems" show ?thesis by (simp add: batch_loop.simps)
  next
    case True
    from "1.prems"(1) True obtain r ex' c1 es1 where
      t: "tick_loop mbs dl rv es c = Some (Returned (r, ex'), c1, es1)"
      by (subst (asm) batch_loop.simps) (auto split: option.splits outcome.splits prod.splits)
    obtain b1 c2 where d: "drain_queue mbs batch c1 = (b1, c2)"
      by (cases "drain_queue mbs batch c1")
    from "1.prems"(1) True t d
    have rec: "batch_loop mbs dl r ex' b1 es1 c2 = Some (Returned b, c', es')"
      by (subst (asm) batch_loop.simps) simp
    have "int (length b) \<le> max (int (length b1)) mbs"
      using "1.IH" [OF True t refl refl refl refl d [symmetric] rec] .
    moreover have "int (length b1) \<le> max (int (length batch)) mbs"
      using drain_queue_bound [OF d] .
    ultimately show ?thesis by simp
  qed
qed

lemma receive_message_batch_bound:
  assumes "receive_message_batch es N cb tmo start c = Some (Returned b, c', es')"
  shows "int (length b) \<le> max 0 (if falsy_int N then prefetch c else the N)"
proof -
  let ?c1 = "c\<lparr> message_received_callback := cb \<rparr>"
  let ?mbs = "if falsy_int N then prefetch c else the N"
  let ?c2 = "?c1\<lparr> received_messages := Some (queue_of ?c1) \<rparr>"
  obtain r3 c3 where o: "AMQPClient_open None ?c2 = (r3, c3)"
    by (cases "AMQPClient_open None ?c2")
  obtain b0 c4 where d: "drain_queue ?mbs [] c3 = (b0, c4)"
    by (cases "drain_queue ?mbs [] c3")
  have b0: "int (length b0) \<le> max 0 ?mbs"
    using drain_queue_bound [OF d] by simp
  from assms o d have "b = b0 \<or>
      batch_loop ?mbs (if tmo \<noteq> 0 then start + tmo else 0) True False b0 es c4
        = Some (Returned b, c', es')"
    by (auto simp: receive_message_batch_def Let_def split: if_splits outcome.splits)
  then show ?thesis
  proof
    assume "b = b0"
    with b0 show ?thesis by simp
  next
    assume "batch_loop ?mbs (if tmo \<noteq> 0 then start + tmo else 0) True False b0 es c4
        = Some (Returned b, c', es')"
    from batch_loop_bound [OF this] b0 show ?thesis by simp
  qed
qed

text \<open>
  The two nested loops, one tick at a time.  The inner loop ends at once when its
  condition fails; when it has ended because a flag is set or the queue reached the
  batch size, the outer loop drains the queue and ends too.
\<close>

lemma tick_loop_stop:
  "\<not> (rv \<and> qsize c < mbs) \<Longrightarrow> tick_loop mbs dl rv es c = Some (Returned (rv, False), c, es)"
  by (cases es) auto

lemma drain_fills:
  "int (length batch) \<le> mbs \<Longrightarrow> mbs \<le> int (length batch) + int (length q)
    \<Longrightarrow> int (length (fst (drain mbs batch q))) = mbs"
  by (induction mbs batch q rule: drain.induct) auto

lemma batch_loop_stop:
  "\<not> (rv \<and> \<not> ex \<and> int (length batch) < mbs)
    \<Longrightarrow> batch_loop mbs dl rv ex batch es c = Some (Returned batch, c, es)"
  by (subst batch_loop.simps) auto

lemma return_batch_filled:
  assumes "int (length batch) < mbs" and "mbs \<le> qsize c"
  shows "\<exists>b c'. return_batch mbs batch c es = Some (Returned b, c', es) \<and> int (length b) = mbs"
proof -
  obtain b q where d: "drain mbs batch (queue_of c) = (b, q)"
    by (cases "drain mbs batch (queue_of c)")
  have "int (length (fst (drain mbs batch (queue_of c)))) = mbs"
    using assms by (intro drain_fills) (simp_all add: qsize_def)
  with d show ?thesis by (simp add: return_batch_def drain_queue_def)
qed

lemma batch_loop_after_ticks:
  assumes "int (length batch) < mbs"
    and "ex \<or> \<not> r \<or> mbs \<le> qsize c"
  shows "(case drain_queue mbs batch c of
            (b, c') \<Rightarrow> batch_loop mbs dl r ex b es c') = return_batch mbs batch c es"
proof -
  obtain b c' where d: "drain_queue mbs batch c = (b, c')"
    by (cases "drain_queue mbs batch c")
  have "\<not> (r \<and> \<not> ex \<and> int (length b) < mbs)"
  proof (cases "ex \<or> \<not> r")
    case True
    then show ?thesis by auto
  next
    case False
    with assms(2) have "mbs \<le> qsize c" by simp
    from return_batch_filled [OF assms(1) this, of es] d
    show ?thesis by (simp add: return_batch_def)
  qed
  then show ?thesis using d by (simp add: batch_loop_stop return_batch_def)
qed

lemma batch_loop_step:
  assumes "int (length batch) < mbs" and "qsize c < mbs"
  shows "batch_loop mbs dl True False batch (e # es) c =
     (if dl > 0 \<and> loop_ms e > dl then return_batch mbs batch c (e # es)
      else
        (case ReceiveClient_do_work e c of
           (Raised x, c') \<Rightarrow> Some (Raised x, c', es)
         | (Returned r, c') \<Rightarrow>
             if (qsize c' > 0 \<and> qsize c' - qsize c = 0) \<or> \<not> r \<or> mbs \<le> qsize c'
             then return_batch mbs batch c' es
             else batch_loop mbs dl True False batch es c'))"
proof (cases "dl > 0 \<and> loop_ms e > dl")
  case True
  have "tick_loop mbs dl True (e # es) c = Some (Returned (True, True), c, e # es)"
    using True assms(2) by simp
  then show ?thesis
    using True assms(1) batch_loop_after_ticks [OF assms(1), of True True c dl "e # es"]
    by (subst batch_loop.simps) auto
next
  case nodl: False
  obtain out c' where w: "ReceiveClient_do_work e c = (out, c')"
    by (cases "ReceiveClient_do_work e c")
  show ?thesis
  proof (cases out)
    case (Raised x)
    with nodl w assms show ?thesis
      by (subst batch_loop.simps) auto
  next
    case (Returned r)
    show ?thesis
    proof (cases "qsize c' > 0 \<and> qsize c' - qsize c = 0")
      case True
      have "tick_loop mbs dl True (e # es) c = Some (Returned (r, True), c', es)"
        using True nodl w Returned assms(2) by (simp add: Let_def)
      then show ?thesis
        using True nodl w Returned assms(1)
          batch_loop_after_ticks [OF assms(1), of True r c' dl es]
        by (subst batch_loop.simps) auto
    next
      case nostall: False
      have t: "tick_loop mbs dl True (e # es) c = tick_loop mbs dl r es c'"
        using nostall nodl w Returned assms(2) by (auto simp: Let_def)
      show ?thesis
      proof (cases "\<not> r \<or> mbs \<le> qsize c'")
        case True
        then have "tick_loop mbs dl r es c' = Some (Returned (r, False), c', es)"
          by (intro tick_loop_stop) auto
        with t have "tick_loop mbs dl True (e # es) c = Some (Returned (r, False), c', es)"
          by simp
        then show ?thesis
          using True nostall nodl w Returned assms(1)
            batch_loop_after_ticks [OF assms(1), of False r c' dl es]
          by (subst batch_loop.simps) auto
      next
        case False
        then have r: "r" and q: "qsize c' < mbs" by auto
        have "batch_loop mbs dl True False batch (e # es) c =
              batch_loop mbs dl True False batch es c'"
          using assms(1) t r batch_loop.simps [of mbs dl True False batch "e # es" c]
            batch_loop.simps [of mbs dl True False batch es c']
          by simp
        then show ?thesis
          using False nostall nodl w Returned by auto
      qed
    qed
  qed
qed

text \<open>
  Claim C4, as amended: \<^verbatim>\<open>receive_message_batch\<close> with \<^verbatim>\<open>max_batch_size=N\<close> for
  a positive \<open>N\<close>.  If \<open>N\<close> exceeds the prefetch, the call raises
  \<^verbatim>\<open>ValueError\<close>; the client has only had its callback set, its log of calls is
  untouched and no environment of a \<^verbatim>\<open>do_work\<close> was used.  Otherwise a returned list
  has at most \<open>N\<close> messages.  With \<^verbatim>\<open>max_batch_size\<close> 0 or \<^verbatim>\<open>None\<close> the
  prefetch takes the place of \<open>N\<close>, and bounds the list.
\<close>

theorem C4_batch_size_limit:
  assumes "0 < n"
  shows "(prefetch c < n \<longrightarrow>
            receive_message_batch es (Some n) cb tmo start c
              = Some (Raised ValueError, c\<lparr> message_received_callback := cb \<rparr>, es))
       \<and> (receive_message_batch es (Some n) cb tmo start c = Some (Returned batch, c', es')
            \<longrightarrow> int (length batch) \<le> n)
       \<and> (falsy_int N \<and> receive_message_batch es N cb tmo start c = Some (Returned batch, c', es')
            \<longrightarrow> int (length batch) \<le> max 0 (prefetch c))"
proof -
  have 1: "prefetch c < n \<longrightarrow>
            receive_message_batch es (Some n) cb tmo start c
              = Some (Raised ValueError, c\<lparr> message_received_callback := cb \<rparr>, es)"
    using assms by (simp add: receive_message_batch_def falsy_int_def)
  have 2: "receive_message_batch es (Some n) cb tmo start c = Some (Returned batch, c', es')
            \<longrightarrow> int (length batch) \<le> n"
    using receive_message_batch_bound [of es "Some n" cb tmo start c batch c' es'] assms
    by (simp add: falsy_int_def)
  have 3: "falsy_int N \<and> receive_message_batch es N cb tmo start c = Some (Returned batch, c', es')
            \<longrightarrow> int (length batch) \<le> max 0 (prefetch c)"
    using receive_message_batch_bound [of es N cb tmo start c batch c' es'] by auto
  from 1 2 3 show ?thesis by blast
qed

theorem C4_batch_size_limit_witness:
  "receive_message_batch [quiet 10 []] (Some 11) None 0 0 sample_receiver
     = Some (Raised ValueError, sample_receiver\<lparr> message_received_callback := None \<rparr>, [quiet 10 []])
   \<and> calls (sample_receiver\<lparr> message_received_callback := None \<rparr>) = calls sample_receiver
   \<and> map_option fst (receive_message_batch [quiet 10 []] (Some 1) None 0 0 sample_receiver)
       = Some (Returned [7])
   \<and> int (length [7 :: nat]) \<le> 1"
proof -
  have p: "prefetch sample_receiver < 11"
    by (simp add: sample_receiver_def AMQPClient.extend_def ReceiveClient.fields_def)
  have ev: "map_option fst (receive_message_batch [quiet 10 []] (Some 1) None 0 0 sample_receiver)
       = Some (Returned [7])"
    by code_simp
  then obtain c' rest where eq:
    "receive_message_batch [quiet 10 []] (Some 1) None 0 0 sample_receiver = Some (Returned [7], c', rest)"
    by (cases "receive_message_batch [quiet 10 []] (Some 1) None 0 0 sample_receiver") auto
  have a: "receive_message_batch [quiet 10 []] (Some 11) None 0 0 sample_receiver
     = Some (Raised ValueError, sample_receiver\<lparr> message_received_callback := None \<rparr>, [quiet 10 []])"
    using C4_batch_size_limit [of 11 sample_receiver "[quiet 10 []]" None 0 0] p by simp
  have b: "int (length [7 :: nat]) \<le> 1"
    using C4_batch_size_limit [of 1 sample_receiver "[quiet 10 []]" None 0 0 "[7]" c' rest] eq
    by simp
  from a b ev show ?thesis by simp
qed

text \<open>
  Claim C4 as stated bounds the list by \<open>N\<close> for every \<open>N\<close>.  The source replaces a
  \<^verbatim>\<open>max_batch_size\<close> of 0 by the prefetch (\<^verbatim>\<open>max_batch_size or self._prefetch\<close>):
  a client with prefetch 1 that holds one queued message returns that message when
  called with \<^verbatim>\<open>max_batch_size=0\<close>.
\<close>

theorem C4_batch_size_zero_counterexample:
  "map_option fst
     (receive_message_batch ([] :: work_env list) (Some 0) None 0 0
        (sample_receiver\<lparr> prefetch := 1 \<rparr>)) = Some (Returned [7])
   \<and> \<not> int (length [7 :: nat]) \<le> 0"
  by code_simp

text \<open>
  Claim C6, as amended.  Take the loop of \<^verbatim>\<open>receive_message_batch\<close> at a point
  where it is about to tick: it is receiving, not expired, and both the batch and the
  queue are shorter than the batch size.  Then
  \<^item> if the deadline is positive and the tick counter has passed it, the call returns
    the batch (after a last drain of the queue) without calling \<^verbatim>\<open>do_work\<close>;
  \<^item> otherwise \<^verbatim>\<open>do_work\<close> is called once; if it raises, so does the call;
  \<^item> if it returns, the call stops ticking and returns the drained batch when the tick
    added no message to a queue that holds at least one, when \<^verbatim>\<open>do_work\<close>
    returned \<^verbatim>\<open>False\<close>, or when the queue has reached the batch size (and then the
    returned batch is full);
  \<^item> in every other case the loop goes on with the next tick.

  The deadline that the loop uses is fixed before the loop starts:
  \<^verbatim>\<open>now + timeout\<close> for a \<^verbatim>\<open>timeout\<close> other than 0, and 0, which the test
  \<^verbatim>\<open>timeout > 0\<close> never passes, for \<^verbatim>\<open>timeout=0\<close>.
\<close>

theorem C6_batch_loop_exits:
  "(int (length batch) < mbs \<and> qsize c < mbs \<longrightarrow>
      batch_loop mbs dl True False batch (e # es) c =
        (if dl > 0 \<and> loop_ms e > dl then return_batch mbs batch c (e # es)
         else
           (case ReceiveClient_do_work e c of
              (Raised x, c') \<Rightarrow> Some (Raised x, c', es)
            | (Returned r, c') \<Rightarrow>
                if (qsize c' > 0 \<and> qsize c' - qsize c = 0) \<or> \<not> r \<or> mbs \<le> qsize c'
                then return_batch mbs batch c' es
                else batch_loop mbs dl True False batch es c')))
   \<and> (int (length batch) < mbs \<and> mbs \<le> qsize c1 \<longrightarrow>
        (\<exists>b c2. return_batch mbs batch c1 es = Some (Returned b, c2, es) \<and> int (length b) = mbs))
   \<and> (mbs0 = (if falsy_int N then prefetch c0 else the N) \<and> mbs0 \<le> prefetch c0
        \<and> AMQPClient_open None
             (c0\<lparr> message_received_callback := cb,
                  received_messages :=
                    Some (queue_of (c0\<lparr> message_received_callback := cb \<rparr>)) \<rparr>) = (Returned u, c3)
        \<and> drain_queue mbs0 [] c3 = (batch0, c4) \<and> int (length batch0) < mbs0 \<longrightarrow>
        receive_message_batch es0 N cb tmo start c0 =
          batch_loop mbs0 (if tmo \<noteq> 0 then start + tmo else 0) True False batch0 es0 c4)"
proof -
  have 1: "int (length batch) < mbs \<and> qsize c < mbs \<longrightarrow>
      batch_loop mbs dl True False batch (e # es) c =
        (if dl > 0 \<and> loop_ms e > dl then return_batch mbs batch c (e # es)
         else
           (case ReceiveClient_do_work e c of
              (Raised x, c') \<Rightarrow> Some (Raised x, c', es)
            | (Returned r, c') \<Rightarrow>
                if (qsize c' > 0 \<and> qsize c' - qsize c = 0) \<or> \<not> r \<or> mbs \<le> qsize c'
                then return_batch mbs batch c' es
                else batch_loop mbs dl True False batch es c'))"
    using batch_loop_step [of batch mbs c dl e es] by blast
  have 2: "int (length batch) < mbs \<and> mbs \<le> qsize c1 \<longrightarrow>
        (\<exists>b c2. return_batch mbs batch c1 es = Some (Returned b, c2, es) \<and> int (length b) = mbs)"
    using return_batch_filled [of batch mbs c1 es] by blast
  have 3: "mbs0 = (if falsy_int N then prefetch c0 else the N) \<and> mbs0 \<le> prefetch c0
        \<and> AMQPClient_open None
             (c0\<lparr> message_received_callback := cb,
                  received_messages :=
                    Some (queue_of (c0\<lparr> message_received_callback := cb \<rparr>)) \<rparr>) = (Returned u, c3)
        \<and> drain_queue mbs0 [] c3 = (batch0, c4) \<and> int (length batch0) < mbs0 \<longrightarrow>
        receive_message_batch es0 N cb tmo start c0 =
          batch_loop mbs0 (if tmo \<noteq> 0 then start + tmo else 0) True False batch0 es0 c4"
    by (auto simp: receive_message_batch_def Let_def)
  from 1 2 3 show ?thesis by blast
qed

theorem C6_batch_loop_exits_witness:
  "batch_loop 10 0 True False [] [quiet 10 [1, 2, 3], quiet 20 [], quiet 30 [4]] listening
     = batch_loop 10 0 True False [] [quiet 20 [], quiet 30 [4]]
         (snd (ReceiveClient_do_work (quiet 10 [1, 2, 3]) listening))
   \<and> batch_loop 10 0 True False [] [quiet 20 [], quiet 30 [4]]
         (snd (ReceiveClient_do_work (quiet 10 [1, 2, 3]) listening))
     = return_batch 10 []
         (snd (ReceiveClient_do_work (quiet 20 [])
            (snd (ReceiveClient_do_work (quiet 10 [1, 2, 3]) listening)))) [quiet 30 [4]]
   \<and> receive_message_batch [quiet 10 [1, 2, 3], quiet 20 [], quiet 30 [4]] (Some 10) None 0 0 listening
     = batch_loop 10 0 True False [] [quiet 10 [1, 2, 3], quiet 20 [], quiet 30 [4]] listening
   \<and> map_option (\<lambda>(r, c, rest). (r, length rest))
       (receive_message_batch [quiet 10 [1, 2, 3], quiet 20 [], quiet 30 [4]] (Some 10) None 0 0
          listening) = Some (Returned [1, 2, 3], 1)
   \<and> (\<exists>b c2. return_batch 1 [] sample_receiver [quiet 30 [4]] = Some (Returned b, c2, [quiet 30 [4]])
        \<and> int (length b) = 1)"
proof -
  let ?e1 = "quiet 10 [1, 2, 3]" and ?e2 = "quiet 20 []" and ?e3 = "quiet 30 [4]"
  let ?c1 = "snd (ReceiveClient_do_work ?e1 listening)"
  let ?c2 = "snd (ReceiveClient_do_work ?e2 ?c1)"
  have q0: "qsize listening = 0" by code_simp
  have r1: "fst (ReceiveClient_do_work ?e1 listening) = Returned True" and q1: "qsize ?c1 = 3"
    by code_simp+
  have r2: "fst (ReceiveClient_do_work ?e2 ?c1) = Returned True" and q2: "qsize ?c2 = 3"
    by code_simp+
  have s1: "batch_loop 10 0 True False [] [?e1, ?e2, ?e3] listening
     = batch_loop 10 0 True False [] [?e2, ?e3] ?c1"
    using C6_batch_loop_exits [where batch = "[]" and mbs = 10 and c = listening and dl = 0
        and e = ?e1 and es = "[?e2, ?e3]", THEN conjunct1] q0 q1 r1
    by (simp add: case_prod_beta)
  have s2: "batch_loop 10 0 True False [] [?e2, ?e3] ?c1 = return_batch 10 [] ?c2 [?e3]"
    using C6_batch_loop_exits [where batch = "[]" and mbs = 10 and c = ?c1 and dl = 0
        and e = ?e2 and es = "[?e3]", THEN conjunct1] q1 q2 r2
    by (simp add: case_prod_beta)
  have o: "AMQPClient_open None
             (listening\<lparr> message_received_callback := None,
                  received_messages :=
                    Some (queue_of (listening\<lparr> message_received_callback := None \<rparr>)) \<rparr>)
           = (Returned (), listening)"
    by (simp add: AMQPClient_open_def listening_def sample_receiver_def sample_client_def
        AMQPClient.extend_def ReceiveClient.fields_def queue_of_def)
  have d: "drain_queue 10 [] listening = ([], listening)"
    by (simp add: drain_queue_def listening_def sample_receiver_def sample_client_def
        AMQPClient.extend_def ReceiveClient.fields_def queue_of_def)
  have p: "prefetch listening = 10"
    by (simp add: listening_def sample_receiver_def AMQPClient.extend_def ReceiveClient.fields_def)
  have s3: "receive_message_batch [?e1, ?e2, ?e3] (Some 10) None 0 0 listening
     = batch_loop 10 0 True False [] [?e1, ?e2, ?e3] listening"
    using C6_batch_loop_exits [where ?mbs0.0 = 10 and N = "Some 10" and ?c0.0 = listening
        and cb = None and u = "()" and ?c3.0 = listening and ?batch0.0 = "[]" and ?c4.0 = listening
        and ?es0.0 = "[?e1, ?e2, ?e3]" and tmo = 0 and start = 0,
        THEN conjunct2, THEN conjunct2] o d p
    by (simp add: falsy_int_def)
  have ev: "map_option (\<lambda>(r, c, rest). (r, length rest))
       (receive_message_batch [?e1, ?e2, ?e3] (Some 10) None 0 0 listening)
       = Some (Returned [1, 2, 3], 1)"
    by code_simp
  have qs: "qsize sample_receiver = 1" by code_simp
  have s4: "\<exists>b c2. return_batch 1 [] sample_receiver [?e3] = Some (Returned b, c2, [?e3])
        \<and> int (length b) = 1"
    using C6_batch_loop_exits [where batch = "[]" and mbs = 1 and ?c1.0 = sample_receiver
        and es = "[?e3]", THEN conjunct2, THEN conjunct1] qs by simp
  from s1 s2 s3 ev s4 show ?thesis by blast
qed

text \<open>
  Claim C6 as stated lets the loop go on, absent a stalled tick, until the batch fills
  or the deadline passes.  The loop also tests \<^verbatim>\<open>receiving\<close>, the result of the
  last \<^verbatim>\<open>do_work\<close>.  A receiving client with an idle timeout of 50 ms is called
  with \<^verbatim>\<open>max_batch_size=10\<close> and \<^verbatim>\<open>timeout=0\<close> (no deadline) while nothing
  arrives: the first tick, 95 ms after the last activity, sets the shutdown flag, the
  second \<^verbatim>\<open>do_work\<close> returns \<^verbatim>\<open>False\<close>, and the call returns the empty batch.
  The queue was empty throughout, so no tick stalled; the third environment, which
  would have delivered a message, is never used.
\<close>

theorem C6_not_receiving_counterexample:
  "map_option (\<lambda>(r, c, rest). (r, shutdown c, qsize c, length rest))
     (receive_message_batch [quiet 100 [], quiet 200 [], quiet 300 [4]] (Some 10) None 0 0 listening)
     = Some (Returned [], True, 0, 1)
   \<and> qsize listening = 0"
  by code_simp

end
